theory Spec2Isabelle
  imports Complex_Main "HOL-Library.Word"
begin

section \<open>Data model (frontend/src/App.tsx)\<close>

text \<open>
  The two interfaces of App.tsx. An optional property (\<^verbatim>\<open>filesize?\<close>, \<^verbatim>\<open>thumbnail?\<close>,
  \<^verbatim>\<open>duration?\<close>) is an option; a JSON number is a rational (the values are only passed
  through, never computed with). The property \<^verbatim>\<open>note\<close> is spelt \<open>fmt_note\<close> because
  \<^verbatim>\<open>note\<close> is a keyword of the proof language.
\<close>

record VideoFormat =
  format_id :: string
  ext :: string
  resolution :: string
  filesize :: "rat option"
  fmt_note :: string
  has_video :: bool
  has_audio :: bool

record VideoInfo =
  title :: string
  thumbnail :: "string option"
  duration :: "rat option"
  formats :: "VideoFormat list"

text \<open>The six \<^verbatim>\<open>useState\<close> cells of \<^verbatim>\<open>App\<close>, with their initial values.\<close>

record AppState =
  url :: string
  loading :: bool
  message :: string
  error :: string
  videoInfo :: "VideoInfo option"
  selectedFormat :: string

definition App_init :: AppState where
  "App_init = \<lparr>url = [], loading = False, message = [], error = [],
     videoInfo = None, selectedFormat = []\<rparr>"

section \<open>The environment: requests, responses, effects\<close>

text \<open>
  What a handler hands to \<^verbatim>\<open>fetch\<close>: the resource, the method, the headers and the
  body. Every body in this repository is \<^verbatim>\<open>JSON.stringify\<close> of an object literal whose
  values are strings, so the body is the list of its key/value pairs, in order.
\<close>

record request =
  endpoint :: string
  http_method :: string
  req_headers :: "(string \<times> string) list"
  req_body :: "(string \<times> string) list"

type_synonym bytes = "8 word list"

text \<open>
  What a handler reads from the \<^verbatim>\<open>Response\<close>: \<^verbatim>\<open>response.ok\<close>, the value of
  \<^verbatim>\<open>response.headers.get('Content-Disposition')\<close> (\<open>None\<close> is \<^verbatim>\<open>null\<close>), the result of
  \<^verbatim>\<open>await response.json()\<close> and of \<^verbatim>\<open>await response.blob()\<close>. A rejected promise is
  \<open>Inl m\<close>, with \<open>m\<close> the \<^verbatim>\<open>message\<close> of the error thrown.

  The parsed JSON value is taken at the type the handler uses it at (\<open>'a\<close>):
  \<^verbatim>\<open>handleUrlSubmit\<close> stores \<^verbatim>\<open>data\<close> in the cell declared \<^verbatim>\<open>VideoInfo | null\<close> with no
  check at run time, so a body that parses to a value of another shape is outside this
  model.

  \<open>Rejected m\<close> is \<^verbatim>\<open>fetch\<close> itself rejecting (a network error) with message \<open>m\<close>.

  A handler is one step from the state at the click and the outcome of its request to
  the state after its \<^verbatim>\<open>finally\<close>; the state while the request is in flight is given by
  the handler's \<open>_begin\<close> function. The values sent are those of the render the handler
  was created in, that is, of the state at the click.
\<close>

record 'a response =
  ok :: bool
  content_disposition :: "string option"
  json :: "string + 'a"
  blob :: "string + bytes"

datatype 'a outcome = Rejected string | Responded "'a response"

text \<open>
  The effects of a handler outside the React state: a request sent, and a file offered
  to the user under a name (the anchor element with \<^verbatim>\<open>download = filename\<close> that
  \<^verbatim>\<open>handleDownload\<close> clicks).
\<close>

datatype effect = Fetch request | SaveAs string bytes

text \<open>JavaScript's \<^verbatim>\<open>a || b\<close> where \<open>a\<close> is a string or \<^verbatim>\<open>undefined\<close> (\<open>None\<close>).\<close>

definition js_or :: "string option \<Rightarrow> string \<Rightarrow> string" where
  "js_or a b = (case a of None \<Rightarrow> b | Some s \<Rightarrow> if s = [] then b else s)"

section \<open>handleUrlSubmit\<close>

text \<open>The statements before the \<^verbatim>\<open>try\<close>: the state while the request is in flight.\<close>

definition handleUrlSubmit_begin :: "AppState \<Rightarrow> AppState" where
  "handleUrlSubmit_begin st =
     st\<lparr>loading := True, message := [], error := [], videoInfo := None\<rparr>"

definition formats_request :: "AppState \<Rightarrow> request" where
  "formats_request st =
     \<lparr>endpoint = ''http://localhost:8000/formats'', http_method = ''POST'',
      req_headers = [(''Content-Type'', ''application/json'')],
      req_body = [(''url'', url st)]\<rparr>"

text \<open>\<^verbatim>\<open>data.formats[0]?.format_id\<close>: \<^verbatim>\<open>undefined\<close> on an empty array.\<close>

definition first_format_id :: "VideoFormat list \<Rightarrow> string option" where
  "first_format_id fs = (case fs of [] \<Rightarrow> None | f # _ \<Rightarrow> Some (format_id f))"

text \<open>
  The body of the \<^verbatim>\<open>try\<close>: \<open>Inl m\<close> is an error thrown with message \<open>m\<close>, \<open>Inr st\<close> the
  state after the two setters.
\<close>

fun handleUrlSubmit_try :: "AppState \<Rightarrow> VideoInfo outcome \<Rightarrow> string + AppState" where
  "handleUrlSubmit_try st (Rejected m) = Inl m"
| "handleUrlSubmit_try st (Responded r) =
     (if \<not> ok r then Inl ''Failed to get video information''
      else case json r of
             Inl m \<Rightarrow> Inl m
           | Inr data \<Rightarrow>
               Inr (st\<lparr>videoInfo := Some data,
                       selectedFormat := js_or (first_format_id (formats data)) []\<rparr>))"

definition handleUrlSubmit :: "AppState \<Rightarrow> VideoInfo outcome \<Rightarrow> AppState \<times> effect list" where
  "handleUrlSubmit st0 out =
     (let st = handleUrlSubmit_begin st0;
          st' = (case handleUrlSubmit_try st out of
                   Inl m \<Rightarrow> st\<lparr>error := js_or (Some m) ''Something went wrong''\<rparr>
                 | Inr s \<Rightarrow> s)
      in (st'\<lparr>loading := False\<rparr>, [Fetch (formats_request st0)]))"

section \<open>The pattern \<^verbatim>\<open>/filename="(.+)"/\<close>\<close>

definition dquote :: char where
  "dquote = CHR 0x22"

definition filename_lit :: string where
  "filename_lit = ''filename='' @ [dquote]"

text \<open>
  \<^verbatim>\<open>.\<close> matches every character but a line terminator. A header value is a byte string,
  so of the four line terminators of JavaScript only LF and CR can occur.
\<close>

definition is_line_terminator :: "char \<Rightarrow> bool" where
  "is_line_terminator c \<longleftrightarrow> c = CHR 0x0A \<or> c = CHR 0x0D"

text \<open>
  The group \<^verbatim>\<open>(.+)\<close> is greedy: it first takes the longest run of non-terminators and
  gives characters back one at a time, down to one, until a double quote follows.
  \<open>backtrack n r\<close> tries the lengths \<open>n\<close>, \<open>n - 1\<close>, ..., \<open>1\<close> on the rest \<open>r\<close>.
\<close>

fun backtrack :: "nat \<Rightarrow> string \<Rightarrow> string option" where
  "backtrack 0 r = None"
| "backtrack (Suc n) r =
     (if Suc n < length r \<and> r ! Suc n = dquote then Some (take (Suc n) r)
      else backtrack n r)"

definition dot_run :: "string \<Rightarrow> nat" where
  "dot_run r = length (takeWhile (\<lambda>c. \<not> is_line_terminator c) r)"

text \<open>The pattern tried at the start of \<open>s\<close>; the result is capture group 1.\<close>

definition match_here :: "string \<Rightarrow> string option" where
  "match_here s =
     (if take (length filename_lit) s = filename_lit
      then backtrack (dot_run (drop (length filename_lit) s)) (drop (length filename_lit) s)
      else None)"

text \<open>\<^verbatim>\<open>s.match(re)\<close> without the \<^verbatim>\<open>g\<close> flag: the leftmost position where the pattern matches.\<close>

fun match_filename :: "string \<Rightarrow> string option" where
  "match_filename [] = None"
| "match_filename (c # cs) =
     (case match_here (c # cs) of Some g \<Rightarrow> Some g | None \<Rightarrow> match_filename cs)"

text \<open>
  What the pattern means, stated on the string and not on the search: the pattern matches
  \<open>h\<close> at offset \<open>i\<close> with group \<open>g\<close> when \<open>h\<close>, from \<open>i\<close> on, reads \<^verbatim>\<open>filename="\<close>, then
  \<open>g\<close>, then a double quote, where \<open>g\<close> is one or more characters none of which is a
  line terminator.
\<close>

definition pattern_at :: "string \<Rightarrow> nat \<Rightarrow> string \<Rightarrow> bool" where
  "pattern_at h i g \<longleftrightarrow>
     g \<noteq> [] \<and> (\<forall>c \<in> set g. \<not> is_line_terminator c)
     \<and> (\<exists>post. drop i h = filename_lit @ g @ [dquote] @ post)"

definition pattern_occurs :: "string \<Rightarrow> bool" where
  "pattern_occurs h \<longleftrightarrow> (\<exists>i g. pattern_at h i g)"

text \<open>
  The first capture group of the match that \<^verbatim>\<open>String.prototype.match\<close> reports: the match
  at the least offset and, at that offset, with the longest group.
\<close>

definition first_capture :: "string \<Rightarrow> string \<Rightarrow> bool" where
  "first_capture h g \<longleftrightarrow>
     (\<exists>i. pattern_at h i g
        \<and> (\<forall>j g'. pattern_at h j g' \<longrightarrow> i \<le> j \<and> (j = i \<longrightarrow> length g' \<le> length g)))"

section \<open>handleDownload\<close>

definition handleDownload_begin :: "AppState \<Rightarrow> AppState" where
  "handleDownload_begin st = st\<lparr>loading := True, message := ''Starting download...''\<rparr>"

definition download_request :: "AppState \<Rightarrow> request" where
  "download_request st =
     \<lparr>endpoint = ''http://localhost:8000/download'', http_method = ''POST'',
      req_headers = [(''Content-Type'', ''application/json'')],
      req_body = [(''url'', url st), (''format_id'', selectedFormat st)]\<rparr>"

text \<open>
  \<^verbatim>\<open>contentDisposition && contentDisposition.match(...)\<close> is falsy for \<^verbatim>\<open>null\<close>, for the
  empty string and for a string without a match.
\<close>

definition filenameMatch :: "string option \<Rightarrow> string option" where
  "filenameMatch cd =
     (case cd of None \<Rightarrow> None | Some h \<Rightarrow> if h = [] then None else match_filename h)"

definition download_filename :: "string option \<Rightarrow> string" where
  "download_filename cd = (case filenameMatch cd of Some g \<Rightarrow> g | None \<Rightarrow> ''video.mp4'')"

fun handleDownload_try :: "AppState \<Rightarrow> 'a outcome \<Rightarrow> string + AppState \<times> effect list" where
  "handleDownload_try st (Rejected m) = Inl m"
| "handleDownload_try st (Responded r) =
     (if \<not> ok r then Inl ''Download failed''
      else case blob r of
             Inl m \<Rightarrow> Inl m
           | Inr b \<Rightarrow>
               Inr (st\<lparr>message :=
                         ''Download complete: '' @ download_filename (content_disposition r)\<rparr>,
                    [SaveAs (download_filename (content_disposition r)) b]))"

definition handleDownload :: "AppState \<Rightarrow> 'a outcome \<Rightarrow> AppState \<times> effect list" where
  "handleDownload st0 out =
     (let st = handleDownload_begin st0
      in case handleDownload_try st out of
           Inl m \<Rightarrow>
             (st\<lparr>error := js_or (Some m) ''Download failed'', loading := False\<rparr>,
              [Fetch (download_request st0)])
         | Inr (s, effs) \<Rightarrow> (s\<lparr>loading := False\<rparr>, Fetch (download_request st0) # effs))"

section \<open>What the page lets the user do (App.tsx, the JSX)\<close>

text \<open>
  \<^verbatim>\<open>onChange={(e) => setUrl(e.target.value)}\<close> of the URL input.
\<close>

definition change_url :: "string \<Rightarrow> AppState \<Rightarrow> AppState \<times> effect list" where
  "change_url u st = (st\<lparr>url := u\<rparr>, [])"

text \<open>Both buttons of \<^verbatim>\<open>App\<close> carry \<^verbatim>\<open>disabled={loading}\<close>.\<close>

definition buttons_disabled :: "AppState \<Rightarrow> bool" where
  [simp]: "buttons_disabled st = loading st"

text \<open>
  The form: \<^verbatim>\<open><input type="url" required>\<close> and a submit button with
  \<^verbatim>\<open>disabled={loading}\<close>. The browser runs the input's constraints before it raises the
  submit event: an empty value fails \<^verbatim>\<open>required\<close>, a value that is not a valid URL fails
  \<^verbatim>\<open>type="url"\<close>, and \<^verbatim>\<open>onSubmit\<close> is then not called. What a valid URL is belongs to the
  browser, not to this repository: it is the parameter \<open>valid\<close>.
\<close>

definition submit_form ::
  "(string \<Rightarrow> bool) \<Rightarrow> AppState \<Rightarrow> VideoInfo outcome \<Rightarrow> AppState \<times> effect list" where
  "submit_form valid st out =
     (if buttons_disabled st \<or> url st = [] \<or> \<not> valid (url st) then (st, [])
      else handleUrlSubmit st out)"


definition click_download :: "AppState \<Rightarrow> 'a outcome \<Rightarrow> AppState \<times> effect list" where
  "click_download st out =
     (case videoInfo st of
        None \<Rightarrow> (st, [])
      | Some vi \<Rightarrow> if buttons_disabled st then (st, []) else handleDownload st out)"


text \<open>The values of the options of the \<^verbatim>\<open>select\<close>, when it is rendered.\<close>

definition shown_formats :: "AppState \<Rightarrow> string list option" where
  "shown_formats st =
     (case videoInfo st of None \<Rightarrow> None | Some vi \<Rightarrow> Some (map format_id (formats vi)))"

section \<open>The two link-back components (YouTubeDownloader, YouTubeDownLoader)\<close>

text \<open>
  Both components hold the same four cells. Their names carry the prefix \<open>link_\<close> where
  they would clash with those of \<^verbatim>\<open>App\<close>. \<^verbatim>\<open>downloadLink\<close> is an option because
  \<^verbatim>\<open>setDownloadLink(data.downloadUrl)\<close> stores \<^verbatim>\<open>undefined\<close> (\<open>None\<close>) when the reply has no
  such property.
\<close>

record LinkState =
  link_url :: string
  link_loading :: bool
  link_error :: string
  downloadLink :: "string option"

definition Link_init :: LinkState where
  "Link_init = \<lparr>link_url = [], link_loading = False, link_error = [],
     downloadLink = Some []\<rparr>"

text \<open>
  The two properties the components read from the parsed reply, \<^verbatim>\<open>data.message\<close> and
  \<^verbatim>\<open>data.downloadUrl\<close>; \<open>None\<close> is a property the reply does not have.
\<close>

record LinkReply =
  reply_message :: "string option"
  downloadUrl :: "string option"

definition handleSubmit_begin :: "LinkState \<Rightarrow> LinkState" where
  "handleSubmit_begin st = st\<lparr>link_loading := True, link_error := [], downloadLink := Some []\<rparr>"

definition api_request :: "string \<Rightarrow> LinkState \<Rightarrow> request" where
  "api_request target st =
     \<lparr>endpoint = target, http_method = ''POST'',
      req_headers = [(''Content-Type'', ''application/json'')],
      req_body = [(''url'', link_url st)]\<rparr>"

text \<open>
  \<^verbatim>\<open>YouTubeDownloader\<close> (the JavaScript component): it parses the body before it looks at
  \<^verbatim>\<open>response.ok\<close>, and a failed response's \<^verbatim>\<open>message\<close> becomes the error text.
\<close>

fun YouTubeDownloader_try :: "LinkState \<Rightarrow> LinkReply outcome \<Rightarrow> string + LinkState" where
  "YouTubeDownloader_try st (Rejected m) = Inl m"
| "YouTubeDownloader_try st (Responded r) =
     (case json r of
        Inl m \<Rightarrow> Inl m
      | Inr data \<Rightarrow>
          if \<not> ok r then Inl (js_or (reply_message data) ''Failed to download video'')
          else Inr (st\<lparr>downloadLink := downloadUrl data\<rparr>))"

definition YouTubeDownloader_handleSubmit ::
  "LinkState \<Rightarrow> LinkReply outcome \<Rightarrow> LinkState \<times> effect list" where
  "YouTubeDownloader_handleSubmit st0 out =
     (let st = handleSubmit_begin st0;
          st' = (case YouTubeDownloader_try st out of
                   Inl m \<Rightarrow> st\<lparr>link_error := m\<rparr>
                 | Inr s \<Rightarrow> s)
      in (st'\<lparr>link_loading := False\<rparr>, [Fetch (api_request ''/api/download'' st0)]))"

text \<open>\<^verbatim>\<open>YouTubeDownLoader\<close> (the TypeScript component): \<^verbatim>\<open>response.ok\<close> first, then the body.\<close>

fun YouTubeDownLoader_try :: "LinkState \<Rightarrow> LinkReply outcome \<Rightarrow> string + LinkState" where
  "YouTubeDownLoader_try st (Rejected m) = Inl m"
| "YouTubeDownLoader_try st (Responded r) =
     (if \<not> ok r then Inl ''Failed to download video''
      else case json r of
             Inl m \<Rightarrow> Inl m
           | Inr data \<Rightarrow> Inr (st\<lparr>downloadLink := downloadUrl data\<rparr>))"

definition YouTubeDownLoader_handleSubmit ::
  "LinkState \<Rightarrow> LinkReply outcome \<Rightarrow> LinkState \<times> effect list" where
  "YouTubeDownLoader_handleSubmit st0 out =
     (let st = handleSubmit_begin st0;
          st' = (case YouTubeDownLoader_try st out of
                   Inl m \<Rightarrow> st\<lparr>link_error := m\<rparr>
                 | Inr s \<Rightarrow> s)
      in (st'\<lparr>link_loading := False\<rparr>,
          [Fetch (api_request ''http://localhost:8000/api/download'' st0)]))"

text \<open>
  Both forms: \<^verbatim>\<open><Input type="url" required>\<close> and a submit button with
  \<^verbatim>\<open>disabled={loading || !url}\<close>.
\<close>

definition link_button_disabled :: "LinkState \<Rightarrow> bool" where
  [simp]: "link_button_disabled st \<longleftrightarrow> link_loading st \<or> link_url st = []"

definition link_submit_form ::
  "(LinkState \<Rightarrow> LinkReply outcome \<Rightarrow> LinkState \<times> effect list) \<Rightarrow> (string \<Rightarrow> bool) \<Rightarrow>
   LinkState \<Rightarrow> LinkReply outcome \<Rightarrow> LinkState \<times> effect list" where
  "link_submit_form handler valid st out =
     (if link_button_disabled st \<or> \<not> valid (link_url st) then (st, [])
      else handler st out)"

text \<open>\<^verbatim>\<open>{downloadLink && (<a href={downloadLink} download>...)}\<close>: the link shown, if any.\<close>

definition shown_link :: "LinkState \<Rightarrow> string option" where
  "shown_link st =
     (case downloadLink st of None \<Rightarrow> None | Some l \<Rightarrow> if l = [] then None else Some l)"

definition shown_link_error :: "LinkState \<Rightarrow> string option" where
  "shown_link_error st = (if link_error st = [] then None else Some (link_error st))"

section \<open>Example values\<close>

text \<open>Concrete values on which the handlers are run below.\<close>

definition example_format :: VideoFormat where
  "example_format = \<lparr>format_id = ''18'', ext = ''mp4'', resolution = ''640x360'',
     filesize = None, fmt_note = ''360p'', has_video = True, has_audio = True\<rparr>"

definition example_info :: VideoInfo where
  "example_info = \<lparr>title = ''Clip'', thumbnail = None, duration = None,
     formats = [example_format]\<rparr>"

definition example_state :: AppState where
  "example_state = App_init\<lparr>url := ''https://youtu.be/abc''\<rparr>"

definition formats_reply :: "VideoInfo \<Rightarrow> VideoInfo response" where
  "formats_reply d = \<lparr>ok = True, content_disposition = None, json = Inr d, blob = Inr []\<rparr>"


definition file_reply :: "string option \<Rightarrow> bytes \<Rightarrow> unit response" where
  "file_reply cd b = \<lparr>ok = True, content_disposition = cd,
     json = Inl ''Unexpected token'', blob = Inr b\<rparr>"

definition example_link_state :: LinkState where
  "example_link_state = Link_init\<lparr>link_url := ''https://youtu.be/abc''\<rparr>"

definition link_reply :: "bool \<Rightarrow> LinkReply \<Rightarrow> LinkReply response" where
  "link_reply k d = \<lparr>ok = k, content_disposition = None, json = Inr d, blob = Inr []\<rparr>"

section \<open>The format lookup: request and stored reply\<close>

lemma handleUrlSubmit_effects:
  "snd (handleUrlSubmit st out) = [Fetch (formats_request st)]"
  by (simp add: handleUrlSubmit_def Let_def)

lemma handleUrlSubmit_success:
  "ok r \<Longrightarrow> json r = Inr data \<Longrightarrow>
   fst (handleUrlSubmit st (Responded r)) =
     st\<lparr>loading := False, message := [], error := [], videoInfo := Some data,
        selectedFormat := js_or (first_format_id (formats data)) []\<rparr>"
  by (simp add: handleUrlSubmit_def handleUrlSubmit_begin_def Let_def)

text \<open>
  C4. The format lookup sends one request, a POST to the \<^verbatim>\<open>/formats\<close> endpoint whose
  body is the object with the single property \<^verbatim>\<open>url\<close>, the current URL; when the response
  is ok and its body parses to a VideoInfo value, that value is stored as it is, and its
  title and formats are what the page shows.
\<close>

theorem formats_lookup_contract:
  assumes "ok r" and "json r = Inr data"
  shows "snd (handleUrlSubmit st (Responded r)) =
           [Fetch \<lparr>endpoint = ''http://localhost:8000/formats'', http_method = ''POST'',
                   req_headers = [(''Content-Type'', ''application/json'')],
                   req_body = [(''url'', url st)]\<rparr>]
         \<and> videoInfo (fst (handleUrlSubmit st (Responded r))) = Some data
         \<and> shown_formats (fst (handleUrlSubmit st (Responded r))) =
             Some (map format_id (formats data))"
  using assms
  by (simp add: handleUrlSubmit_effects handleUrlSubmit_success formats_request_def
      shown_formats_def)

theorem formats_lookup_contract_witness:
  "ok (formats_reply example_info) \<and> json (formats_reply example_info) = Inr example_info
   \<and> snd (handleUrlSubmit example_state (Responded (formats_reply example_info))) =
       [Fetch \<lparr>endpoint = ''http://localhost:8000/formats'', http_method = ''POST'',
               req_headers = [(''Content-Type'', ''application/json'')],
               req_body = [(''url'', ''https://youtu.be/abc'')]\<rparr>]
   \<and> videoInfo (fst (handleUrlSubmit example_state (Responded (formats_reply example_info)))) =
       Some example_info
   \<and> shown_formats (fst (handleUrlSubmit example_state (Responded (formats_reply example_info)))) =
       Some [''18'']"
  using formats_lookup_contract [of "formats_reply example_info" example_info example_state]
  by (simp add: formats_reply_def example_state_def App_init_def example_info_def
      example_format_def)

section \<open>The format lookup: what the page holds afterwards\<close>





text \<open>
  C9. After a successful format lookup (the response is ok and its body parses) the
  selected format is the \<^verbatim>\<open>format_id\<close> of the first element of the returned list, and the
  empty string when the list is empty; a non-empty list therefore never leaves an
  identifier selected that the list does not contain.
\<close>

theorem selected_format_initialised:
  assumes "ok r" and "json r = Inr data"
  shows "(formats data = [] \<and> selectedFormat (fst (handleUrlSubmit st (Responded r))) = [])
       \<or> (formats data \<noteq> []
          \<and> selectedFormat (fst (handleUrlSubmit st (Responded r))) =
              format_id (hd (formats data))
          \<and> selectedFormat (fst (handleUrlSubmit st (Responded r)))
              \<in> set (map format_id (formats data)))"
  using assms
  by (cases "formats data")
     (simp_all add: handleUrlSubmit_success first_format_id_def js_or_def)

theorem selected_format_initialised_witness:
  "ok (formats_reply example_info) \<and> json (formats_reply example_info) = Inr example_info
   \<and> formats example_info \<noteq> []
   \<and> selectedFormat (fst (handleUrlSubmit example_state
        (Responded (formats_reply example_info)))) = ''18''
   \<and> ''18'' \<in> set (map format_id (formats example_info))"
  using selected_format_initialised
    [of "formats_reply example_info" example_info example_state]
  by (simp add: formats_reply_def example_info_def example_format_def)




section \<open>Failures and the loading flag\<close>

lemma handleDownload_rejected:
  "handleDownload st (Rejected m) =
     (st\<lparr>loading := False, message := ''Starting download...'',
         error := js_or (Some m) ''Download failed''\<rparr>,
      [Fetch (download_request st)])"
  by (simp add: handleDownload_def handleDownload_begin_def Let_def)

lemma handleDownload_not_ok:
  "\<not> ok r \<Longrightarrow>
   handleDownload st (Responded r) =
     (st\<lparr>loading := False, message := ''Starting download...'', error := ''Download failed''\<rparr>,
      [Fetch (download_request st)])"
  by (simp add: handleDownload_def handleDownload_begin_def Let_def js_or_def)

lemma handleDownload_unread:
  "ok r \<Longrightarrow> blob r = Inl m \<Longrightarrow>
   handleDownload st (Responded r) =
     (st\<lparr>loading := False, message := ''Starting download...'',
         error := js_or (Some m) ''Download failed''\<rparr>,
      [Fetch (download_request st)])"
  by (simp add: handleDownload_def handleDownload_begin_def Let_def)

lemma handleDownload_success:
  "ok r \<Longrightarrow> blob r = Inr b \<Longrightarrow>
   handleDownload st (Responded r) =
     (st\<lparr>loading := False,
         message := ''Download complete: '' @ download_filename (content_disposition r)\<rparr>,
      [Fetch (download_request st), SaveAs (download_filename (content_disposition r)) b])"
  by (simp add: handleDownload_def handleDownload_begin_def Let_def)

lemma YouTubeDownloader_effects:
  "snd (YouTubeDownloader_handleSubmit st out) = [Fetch (api_request ''/api/download'' st)]"
  by (simp add: YouTubeDownloader_handleSubmit_def Let_def)

lemma YouTubeDownLoader_effects:
  "snd (YouTubeDownLoader_handleSubmit st out) =
     [Fetch (api_request ''http://localhost:8000/api/download'' st)]"
  by (simp add: YouTubeDownLoader_handleSubmit_def Let_def)



lemma YouTubeDownloader_success:
  "ok r \<Longrightarrow> json r = Inr data \<Longrightarrow>
   fst (YouTubeDownloader_handleSubmit st (Responded r)) =
     st\<lparr>link_loading := False, link_error := [], downloadLink := downloadUrl data\<rparr>"
  by (simp add: YouTubeDownloader_handleSubmit_def handleSubmit_begin_def Let_def)

lemma YouTubeDownLoader_success:
  "ok r \<Longrightarrow> json r = Inr data \<Longrightarrow>
   fst (YouTubeDownLoader_handleSubmit st (Responded r)) =
     st\<lparr>link_loading := False, link_error := [], downloadLink := downloadUrl data\<rparr>"
  by (simp add: YouTubeDownLoader_handleSubmit_def handleSubmit_begin_def Let_def)













section \<open>The link-back components\<close>

text \<open>
  C5. In both link-back components a successful submission (the response is ok and its
  body parses to a reply with a non-empty \<^verbatim>\<open>downloadUrl\<close>) sends one POST to the
  \<^verbatim>\<open>/api/download\<close> endpoint with body \<^verbatim>\<open>{url}\<close>, stores the reply's \<^verbatim>\<open>downloadUrl\<close> and
  shows it as the link. Whatever the outcome, that request is the component's only effect:
  no request goes to the stream-back \<^verbatim>\<open>/download\<close> endpoint and no bytes are saved.
\<close>

theorem link_back_contract:
  assumes "ok r" and "json r = Inr data" and "downloadUrl data = Some u" and "u \<noteq> []"
  shows "snd (YouTubeDownloader_handleSubmit st (Responded r)) =
           [Fetch \<lparr>endpoint = ''/api/download'', http_method = ''POST'',
                   req_headers = [(''Content-Type'', ''application/json'')],
                   req_body = [(''url'', link_url st)]\<rparr>]
         \<and> downloadLink (fst (YouTubeDownloader_handleSubmit st (Responded r))) = Some u
         \<and> shown_link (fst (YouTubeDownloader_handleSubmit st (Responded r))) = Some u
         \<and> shown_link_error (fst (YouTubeDownloader_handleSubmit st (Responded r))) = None
         \<and> snd (YouTubeDownLoader_handleSubmit st (Responded r)) =
           [Fetch \<lparr>endpoint = ''http://localhost:8000/api/download'', http_method = ''POST'',
                   req_headers = [(''Content-Type'', ''application/json'')],
                   req_body = [(''url'', link_url st)]\<rparr>]
         \<and> downloadLink (fst (YouTubeDownLoader_handleSubmit st (Responded r))) = Some u
         \<and> shown_link (fst (YouTubeDownLoader_handleSubmit st (Responded r))) = Some u
         \<and> shown_link_error (fst (YouTubeDownLoader_handleSubmit st (Responded r))) = None
         \<and> snd (YouTubeDownloader_handleSubmit st out) =
             [Fetch (api_request ''/api/download'' st)]
         \<and> snd (YouTubeDownLoader_handleSubmit st out) =
             [Fetch (api_request ''http://localhost:8000/api/download'' st)]
         \<and> endpoint (api_request ''/api/download'' st) \<noteq> endpoint (download_request ast)
         \<and> endpoint (api_request ''http://localhost:8000/api/download'' st)
             \<noteq> endpoint (download_request ast)"
  using assms
  by (simp add: YouTubeDownloader_effects YouTubeDownLoader_effects YouTubeDownloader_success
      YouTubeDownLoader_success api_request_def download_request_def shown_link_def
      shown_link_error_def)

theorem link_back_contract_witness:
  "ok (link_reply True \<lparr>reply_message = None, downloadUrl = Some ''/files/clip.mp4''\<rparr>)
   \<and> json (link_reply True \<lparr>reply_message = None, downloadUrl = Some ''/files/clip.mp4''\<rparr>) =
       Inr \<lparr>reply_message = None, downloadUrl = Some ''/files/clip.mp4''\<rparr>
   \<and> downloadUrl \<lparr>reply_message = None, downloadUrl = Some ''/files/clip.mp4''\<rparr> =
       Some ''/files/clip.mp4''
   \<and> ''/files/clip.mp4'' \<noteq> []
   \<and> snd (YouTubeDownloader_handleSubmit example_link_state (Responded
         (link_reply True \<lparr>reply_message = None, downloadUrl = Some ''/files/clip.mp4''\<rparr>))) =
       [Fetch \<lparr>endpoint = ''/api/download'', http_method = ''POST'',
               req_headers = [(''Content-Type'', ''application/json'')],
               req_body = [(''url'', ''https://youtu.be/abc'')]\<rparr>]
   \<and> shown_link (fst (YouTubeDownloader_handleSubmit example_link_state (Responded
         (link_reply True \<lparr>reply_message = None, downloadUrl = Some ''/files/clip.mp4''\<rparr>)))) =
       Some ''/files/clip.mp4''
   \<and> snd (YouTubeDownLoader_handleSubmit example_link_state (Responded
         (link_reply True \<lparr>reply_message = None, downloadUrl = Some ''/files/clip.mp4''\<rparr>))) =
       [Fetch \<lparr>endpoint = ''http://localhost:8000/api/download'', http_method = ''POST'',
               req_headers = [(''Content-Type'', ''application/json'')],
               req_body = [(''url'', ''https://youtu.be/abc'')]\<rparr>]
   \<and> shown_link (fst (YouTubeDownLoader_handleSubmit example_link_state (Responded
         (link_reply True \<lparr>reply_message = None, downloadUrl = Some ''/files/clip.mp4''\<rparr>)))) =
       Some ''/files/clip.mp4''"
  using link_back_contract
    [where r = "link_reply True \<lparr>reply_message = None, downloadUrl = Some ''/files/clip.mp4''\<rparr>"
       and data = "\<lparr>reply_message = None, downloadUrl = Some ''/files/clip.mp4''\<rparr>"
       and u = "''/files/clip.mp4''" and st = example_link_state
       and out = "Rejected ''Failed to fetch''" and ast = example_state]
  by (simp add: link_reply_def example_link_state_def Link_init_def)

section \<open>The search finds the first capture group\<close>

lemma backtrack_Some:
  "backtrack n r = Some g \<Longrightarrow>
   g \<noteq> [] \<and> length g \<le> n \<and> length g < length r \<and> r ! length g = dquote
   \<and> g = take (length g) r"
proof (induction n)
  case 0
  then show ?case by simp
next
  case (Suc n)
  show ?case
  proof (cases "Suc n < length r \<and> r ! Suc n = dquote")
    case True
    with Suc.prems have g: "g = take (Suc n) r" by simp
    from True have len: "length g = Suc n" unfolding g by simp
    from True g len show ?thesis by auto
  next
    case False
    with Suc.prems have "backtrack n r = Some g" by auto
    from Suc.IH [OF this] show ?thesis by simp
  qed
qed

lemma backtrack_longest:
  "backtrack n r = Some g \<Longrightarrow> 0 < k \<Longrightarrow> k \<le> n \<Longrightarrow> k < length r \<Longrightarrow> r ! k = dquote \<Longrightarrow>
   k \<le> length g"
proof (induction n)
  case 0
  then show ?case by simp
next
  case (Suc n)
  show ?case
  proof (cases "Suc n < length r \<and> r ! Suc n = dquote")
    case True
    with Suc.prems(1) have "g = take (Suc n) r" by simp
    with True have "length g = Suc n" by simp
    with Suc.prems(3) show ?thesis by simp
  next
    case False
    with Suc.prems(1) have rest: "backtrack n r = Some g" by auto
    from False Suc.prems have "k \<noteq> Suc n" by auto
    with Suc.prems(3) have "k \<le> n" by simp
    from Suc.IH [OF rest Suc.prems(2) this Suc.prems(4) Suc.prems(5)] show ?thesis .
  qed
qed

lemma backtrack_None:
  "backtrack n r = None \<Longrightarrow> 0 < k \<Longrightarrow> k \<le> n \<Longrightarrow> k < length r \<Longrightarrow> r ! k \<noteq> dquote"
proof (induction n)
  case 0
  then show ?case by simp
next
  case (Suc n)
  from Suc.prems(1) have no: "\<not> (Suc n < length r \<and> r ! Suc n = dquote)"
    and rest: "backtrack n r = None"
    by (auto split: if_splits)
  show ?case
  proof (cases "k = Suc n")
    case True
    with no Suc.prems(4) show ?thesis by simp
  next
    case False
    with Suc.prems(3) have "k \<le> n" by simp
    from Suc.IH [OF rest Suc.prems(2) this Suc.prems(4)] show ?thesis .
  qed
qed


lemma take_within_dot_run:
  assumes "k \<le> dot_run r" and "c \<in> set (take k r)"
  shows "\<not> is_line_terminator c"
proof -
  let ?P = "\<lambda>c. \<not> is_line_terminator c"
  from assms(1) have "min k (length (takeWhile ?P r)) = k"
    by (simp add: dot_run_def)
  then have "take k (take (length (takeWhile ?P r)) r) = take k r"
    by (simp only: take_take)
  then have "take k (takeWhile ?P r) = take k r"
    by (simp only: takeWhile_eq_take [symmetric])
  then have "set (take k r) \<subseteq> set (takeWhile ?P r)"
    by (metis set_take_subset)
  with assms(2) have "c \<in> set (takeWhile ?P r)" by blast
  then show ?thesis by (rule set_takeWhileD [THEN conjunct2])
qed

lemma dot_run_covers:
  assumes "\<forall>c \<in> set g. \<not> is_line_terminator c"
  shows "length g \<le> dot_run (g @ rest)"
  using assms by (simp add: dot_run_def)

lemma match_here_Some:
  assumes "match_here s = Some g"
  shows "pattern_at s 0 g"
proof -
  define r where "r = drop (length filename_lit) s"
  from assms have lit: "take (length filename_lit) s = filename_lit"
    and bt: "backtrack (dot_run r) r = Some g"
    by (auto simp: match_here_def r_def split: if_splits)
  from backtrack_Some [OF bt] have ne: "g \<noteq> []" and le: "length g \<le> dot_run r"
    and lt: "length g < length r" and q: "r ! length g = dquote"
    and g: "g = take (length g) r"
    by simp_all
  have clean: "\<forall>c \<in> set g. \<not> is_line_terminator c"
  proof
    fix c assume "c \<in> set g"
    with g have "c \<in> set (take (length g) r)" by simp
    with le show "\<not> is_line_terminator c" by (rule take_within_dot_run)
  qed
  have "r = take (length g) r @ drop (length g) r" by simp
  also have "drop (length g) r = r ! length g # drop (Suc (length g)) r"
    using lt by (simp add: Cons_nth_drop_Suc)
  finally have "r = g @ [dquote] @ drop (Suc (length g)) r"
    using g q by simp
  moreover have "s = filename_lit @ r"
    using lit unfolding r_def by (metis append_take_drop_id)
  ultimately have "drop 0 s = filename_lit @ g @ [dquote] @ drop (Suc (length g)) r"
    by simp
  with ne clean show ?thesis unfolding pattern_at_def by blast
qed

lemma match_here_complete:
  assumes "pattern_at s 0 g'"
  shows "\<exists>g. match_here s = Some g \<and> length g' \<le> length g"
proof -
  from assms obtain post where ne: "g' \<noteq> []"
    and clean: "\<forall>c \<in> set g'. \<not> is_line_terminator c"
    and s: "s = filename_lit @ g' @ [dquote] @ post"
    unfolding pattern_at_def by auto
  define r where "r = g' @ [dquote] @ post"
  have lit: "take (length filename_lit) s = filename_lit" and r: "drop (length filename_lit) s = r"
    unfolding s r_def by simp_all
  have k0: "0 < length g'" using ne by simp
  have k1: "length g' \<le> dot_run r"
    unfolding r_def using clean by (rule dot_run_covers)
  have k2: "length g' < length r" unfolding r_def by simp
  have k3: "r ! length g' = dquote" unfolding r_def by simp
  have "backtrack (dot_run r) r \<noteq> None"
    using backtrack_None [OF _ k0 k1 k2] k3 by blast
  then obtain g where bt: "backtrack (dot_run r) r = Some g" by auto
  from backtrack_longest [OF bt k0 k1 k2 k3] have "length g' \<le> length g" .
  moreover from lit r bt have "match_here s = Some g" by (simp add: match_here_def)
  ultimately show ?thesis by blast
qed

lemma pattern_at_Cons: "pattern_at (c # cs) (Suc i) g = pattern_at cs i g"
  by (simp add: pattern_at_def)

lemma pattern_at_Nil: "\<not> pattern_at [] i g"
  by (simp add: pattern_at_def filename_lit_def)

lemma match_filename_None: "match_filename h = None \<Longrightarrow> \<not> pattern_at h i g"
proof (induction h arbitrary: i)
  case Nil
  show ?case by (rule pattern_at_Nil)
next
  case (Cons c cs)
  from Cons.prems have here: "match_here (c # cs) = None" and rest: "match_filename cs = None"
    by (auto split: option.splits)
  show ?case
  proof (cases i)
    case 0
    with here match_here_complete [of "c # cs" g] show ?thesis by auto
  next
    case (Suc j)
    with Cons.IH [OF rest, of j] show ?thesis by (simp add: pattern_at_Cons)
  qed
qed

lemma match_filename_Some:
  "match_filename h = Some g \<Longrightarrow>
   \<exists>i. pattern_at h i g \<and> (\<forall>j < i. \<forall>g'. \<not> pattern_at h j g')
        \<and> (\<forall>g'. pattern_at h i g' \<longrightarrow> length g' \<le> length g)"
proof (induction h)
  case Nil
  then show ?case by simp
next
  case (Cons c cs)
  show ?case
  proof (cases "match_here (c # cs)")
    case (Some g0)
    with Cons.prems have eq: "g0 = g" by simp
    from Some eq have "pattern_at (c # cs) 0 g" by (simp add: match_here_Some)
    moreover have "length g' \<le> length g" if "pattern_at (c # cs) 0 g'" for g'
      using match_here_complete [OF that] Some eq by auto
    ultimately show ?thesis by blast
  next
    case None
    with Cons.prems have rest: "match_filename cs = Some g" by simp
    from Cons.IH [OF rest] obtain i where at: "pattern_at cs i g"
      and first: "\<forall>j < i. \<forall>g'. \<not> pattern_at cs j g'"
      and longest: "\<forall>g'. pattern_at cs i g' \<longrightarrow> length g' \<le> length g"
      by blast
    have none_here: "\<not> pattern_at (c # cs) 0 g'" for g'
      using match_here_complete [of "c # cs" g'] None by auto
    have "\<not> pattern_at (c # cs) j g'" if "j < Suc i" for j g'
    proof (cases j)
      case 0
      then show ?thesis by (simp add: none_here)
    next
      case (Suc j')
      with that first show ?thesis by (simp add: pattern_at_Cons)
    qed
    with at longest show ?thesis
      by (intro exI [of _ "Suc i"]) (simp add: pattern_at_Cons)
  qed
qed

lemma match_filename_first_capture:
  assumes "match_filename h = Some g"
  shows "first_capture h g"
proof -
  from match_filename_Some [OF assms] obtain i where at: "pattern_at h i g"
    and first: "\<forall>j < i. \<forall>g'. \<not> pattern_at h j g'"
    and longest: "\<forall>g'. pattern_at h i g' \<longrightarrow> length g' \<le> length g"
    by blast
  have "i \<le> j \<and> (j = i \<longrightarrow> length g' \<le> length g)" if "pattern_at h j g'" for j g'
    using that first longest by (metis not_le_imp_less)
  with at show ?thesis unfolding first_capture_def by blast
qed

lemma first_capture_unique:
  assumes "first_capture h g" and "first_capture h g'"
  shows "g = g'"
proof -
  from assms(1) obtain i where at: "pattern_at h i g"
    and best: "\<And>j x. pattern_at h j x \<Longrightarrow> i \<le> j \<and> (j = i \<longrightarrow> length x \<le> length g)"
    unfolding first_capture_def by blast
  from assms(2) obtain i' where at': "pattern_at h i' g'"
    and best': "\<And>j x. pattern_at h j x \<Longrightarrow> i' \<le> j \<and> (j = i' \<longrightarrow> length x \<le> length g')"
    unfolding first_capture_def by blast
  from best [OF at'] best' [OF at] have same: "i' = i" by simp
  with best [OF at'] best' [OF at] have len: "length g = length g'" by simp
  from at obtain post where "drop i h = filename_lit @ g @ [dquote] @ post"
    unfolding pattern_at_def by blast
  moreover from at' same obtain post' where "drop i h = filename_lit @ g' @ [dquote] @ post'"
    unfolding pattern_at_def by blast
  ultimately have "g @ [dquote] @ post = g' @ [dquote] @ post'" by simp
  with len show ?thesis by simp
qed

lemma match_filename_occurs: "pattern_occurs h \<longleftrightarrow> match_filename h \<noteq> None"
proof
  assume "pattern_occurs h"
  then obtain i g where "pattern_at h i g" unfolding pattern_occurs_def by blast
  then show "match_filename h \<noteq> None" using match_filename_None by blast
next
  assume "match_filename h \<noteq> None"
  then obtain g where "match_filename h = Some g" by auto
  from match_filename_first_capture [OF this] show "pattern_occurs h"
    unfolding first_capture_def pattern_occurs_def by blast
qed

lemma download_filename_None: "download_filename None = ''video.mp4''"
  by (simp add: download_filename_def filenameMatch_def)

lemma download_filename_Some:
  "download_filename (Some h) =
     (case match_filename h of Some g \<Rightarrow> g | None \<Rightarrow> ''video.mp4'')"
  by (cases h) (simp_all add: download_filename_def filenameMatch_def)

section \<open>The download: the name the bytes are saved under\<close>

text \<open>
  C8. When the download response is ok and its body is read, the bytes are saved once,
  under a name \<open>fn\<close>: \<^verbatim>\<open>video.mp4\<close> when the Content-Disposition header is absent or the
  pattern \<^verbatim>\<open>filename="(.+)"\<close> occurs nowhere in it, and otherwise the first capture group
  of the pattern's match (the leftmost match, with the longest group), which is unique.
\<close>

theorem saved_filename_fallback_or_capture:
  assumes "ok r" and "blob r = Inr b"
  shows "\<exists>fn. snd (handleDownload st (Responded r)) =
              [Fetch (download_request st), SaveAs fn b]
          \<and> message (fst (handleDownload st (Responded r))) = ''Download complete: '' @ fn
          \<and> (content_disposition r = None
               \<or> (\<exists>h. content_disposition r = Some h \<and> \<not> pattern_occurs h)
             \<longrightarrow> fn = ''video.mp4'')
          \<and> (\<forall>h. content_disposition r = Some h \<and> pattern_occurs h \<longrightarrow>
                first_capture h fn \<and> (\<forall>g. first_capture h g \<longrightarrow> g = fn))"
proof -
  define fn where "fn = download_filename (content_disposition r)"
  have effects: "snd (handleDownload st (Responded r)) =
      [Fetch (download_request st), SaveAs fn b]"
    and msg: "message (fst (handleDownload st (Responded r))) = ''Download complete: '' @ fn"
    using assms by (simp_all add: handleDownload_success fn_def)
  have fallback: "fn = ''video.mp4''"
    if "content_disposition r = None
        \<or> (\<exists>h. content_disposition r = Some h \<and> \<not> pattern_occurs h)"
    using that
    by (auto simp: fn_def download_filename_None download_filename_Some
        match_filename_occurs)
  have capture: "first_capture h fn \<and> (\<forall>g. first_capture h g \<longrightarrow> g = fn)"
    if h: "content_disposition r = Some h" and occ: "pattern_occurs h" for h
  proof -
    from occ obtain g0 where g0: "match_filename h = Some g0"
      by (auto simp: match_filename_occurs)
    with h have "fn = g0" by (simp add: fn_def download_filename_Some)
    with g0 have "first_capture h fn" by (simp add: match_filename_first_capture)
    then show ?thesis using first_capture_unique by blast
  qed
  from effects msg fallback capture show ?thesis by blast
qed

theorem saved_filename_fallback_or_capture_witness:
  "ok (file_reply (Some (''attachment; filename='' @ [dquote] @ ''clip.mp4'' @ [dquote])) [1, 2, 3])
   \<and> blob (file_reply (Some (''attachment; filename='' @ [dquote] @ ''clip.mp4'' @ [dquote]))
        [1, 2, 3]) = Inr [1, 2, 3]
   \<and> snd (handleDownload example_state (Responded
        (file_reply (Some (''attachment; filename='' @ [dquote] @ ''clip.mp4'' @ [dquote]))
           [1, 2, 3]))) =
       [Fetch (download_request example_state), SaveAs ''clip.mp4'' [1, 2, 3]]
   \<and> ok (file_reply None [1, 2, 3])
   \<and> blob (file_reply None [1, 2, 3]) = Inr [1, 2, 3]
   \<and> snd (handleDownload example_state (Responded (file_reply None [1, 2, 3]))) =
       [Fetch (download_request example_state), SaveAs ''video.mp4'' [1, 2, 3]]"
  using saved_filename_fallback_or_capture
    [of "file_reply (Some (''attachment; filename='' @ [dquote] @ ''clip.mp4'' @ [dquote]))
           [1, 2, 3]" "[1, 2, 3]" example_state]
    saved_filename_fallback_or_capture [of "file_reply None [1, 2, 3]" "[1, 2, 3]" example_state]
  by (simp add: file_reply_def handleDownload_success download_filename_None
      download_filename_Some match_here_def filename_lit_def dquote_def dot_run_def
      is_line_terminator_def)






section \<open>What is checked before a request is sent\<close>

lemma handleDownload_effects:
  "\<exists>rest. snd (handleDownload st out) = Fetch (download_request st) # rest
     \<and> (\<forall>q. Fetch q \<notin> set rest)"
proof (cases out)
  case (Rejected m)
  then show ?thesis by (simp add: handleDownload_rejected)
next
  case (Responded r)
  show ?thesis
  proof (cases "ok r")
    case False
    with Responded show ?thesis by (simp add: handleDownload_not_ok)
  next
    case True
    with Responded show ?thesis
      by (cases "blob r") (simp_all add: handleDownload_unread handleDownload_success)
  qed
qed

lemma click_download_withheld:
  "videoInfo st = None \<or> loading st \<Longrightarrow> click_download st out = (st, [])"
  by (auto simp: click_download_def split: option.splits)

lemma click_download_runs:
  "videoInfo st \<noteq> None \<Longrightarrow> \<not> loading st \<Longrightarrow> click_download st out = handleDownload st out"
  by (auto simp: click_download_def split: option.splits)

text \<open>
  C2, as the claim states it, fails for the download: \<^verbatim>\<open>handleDownload\<close> sends the URL
  cell as it is, and the Download button is not part of the form whose input the browser
  validates. After a lookup with a valid URL the user empties the input and presses
  Download: a request goes out with the empty URL. (The browser's test is taken here to
  accept the one URL \<^verbatim>\<open>https://youtu.be/abc\<close>.)
\<close>

theorem download_sends_empty_url_counterexample:
  "snd (click_download
     (fst (change_url []
        (fst (submit_form ((=) ''https://youtu.be/abc'') example_state
           (Responded (formats_reply example_info))))))
     (Rejected ''Failed to fetch'')) =
   [Fetch \<lparr>endpoint = ''http://localhost:8000/download'', http_method = ''POST'',
           req_headers = [(''Content-Type'', ''application/json'')],
           req_body = [(''url'', []), (''format_id'', ''18'')]\<rparr>]"
  by (simp add: submit_form_def example_state_def App_init_def handleUrlSubmit_success
      formats_reply_def change_url_def click_download_def handleDownload_rejected
      download_request_def example_info_def example_format_def first_format_id_def js_or_def)

text \<open>
  C2, amended. A form submission with an empty or malformed URL (the format lookup of
  \<^verbatim>\<open>App\<close> and the submit of both link-back components) is rejected before any request:
  nothing is sent and the state is unchanged; with a URL that is neither, and no request
  in flight, the lookup request is sent. The download has no URL check of its own: it is
  withheld exactly while no VideoInfo is held or a request is in flight.
\<close>

theorem invalid_url_form_rejected:
  assumes "url st = [] \<or> \<not> valid (url st)" and "link_url ls = [] \<or> \<not> valid (link_url ls)"
  shows "submit_form valid st out = (st, [])
       \<and> link_submit_form YouTubeDownloader_handleSubmit valid ls lout = (ls, [])
       \<and> link_submit_form YouTubeDownLoader_handleSubmit valid ls lout = (ls, [])
       \<and> (\<not> loading st' \<and> url st' \<noteq> [] \<and> valid (url st') \<longrightarrow>
            snd (submit_form valid st' out) = [Fetch (formats_request st')])
       \<and> (snd (click_download st dout) = [] \<longleftrightarrow> videoInfo st = None \<or> loading st)"
proof -
  have forms: "submit_form valid st out = (st, [])
       \<and> link_submit_form YouTubeDownloader_handleSubmit valid ls lout = (ls, [])
       \<and> link_submit_form YouTubeDownLoader_handleSubmit valid ls lout = (ls, [])"
    using assms by (auto simp: submit_form_def link_submit_form_def)
  have sent: "snd (submit_form valid st' out) = [Fetch (formats_request st')]"
    if "\<not> loading st' \<and> url st' \<noteq> [] \<and> valid (url st')"
    using that by (simp add: submit_form_def handleUrlSubmit_effects)
  have gate: "snd (click_download st dout) = [] \<longleftrightarrow> videoInfo st = None \<or> loading st"
  proof (cases "videoInfo st = None \<or> loading st")
    case True
    then show ?thesis by (simp add: click_download_withheld)
  next
    case False
    then have "click_download st dout = handleDownload st dout"
      by (simp add: click_download_runs)
    with False show ?thesis using handleDownload_effects [of st dout] by auto
  qed
  from forms sent gate show ?thesis by blast
qed

theorem invalid_url_form_rejected_witness:
  "\<not> ((=) ''https://youtu.be/abc'') (url (example_state\<lparr>url := ''not a url''\<rparr>))
   \<and> link_url Link_init = []
   \<and> submit_form ((=) ''https://youtu.be/abc'') (example_state\<lparr>url := ''not a url''\<rparr>)
        (Responded (formats_reply example_info)) =
       (example_state\<lparr>url := ''not a url''\<rparr>, [])
   \<and> link_submit_form YouTubeDownloader_handleSubmit ((=) ''https://youtu.be/abc'') Link_init
        (Rejected ''Failed to fetch'') = (Link_init, [])
   \<and> link_submit_form YouTubeDownLoader_handleSubmit ((=) ''https://youtu.be/abc'') Link_init
        (Rejected ''Failed to fetch'') = (Link_init, [])
   \<and> snd (submit_form ((=) ''https://youtu.be/abc'') example_state
        (Responded (formats_reply example_info))) = [Fetch (formats_request example_state)]
   \<and> snd (click_download (example_state\<lparr>url := ''not a url''\<rparr>)
        (Rejected ''Failed to fetch'')) = []"
  using invalid_url_form_rejected
    [where valid = "(=) ''https://youtu.be/abc''"
       and st = "example_state\<lparr>url := ''not a url''\<rparr>" and ls = Link_init
       and out = "Responded (formats_reply example_info)"
       and lout = "Rejected ''Failed to fetch''" and st' = example_state
       and dout = "Rejected ''Failed to fetch''"]
  by (simp add: example_state_def App_init_def Link_init_def)

text \<open>
  C6, as the claim states it, fails: \<^verbatim>\<open>handleDownload\<close> checks neither value. A lookup
  that returns an empty format list leaves the empty string selected, the Download button
  is shown all the same, and pressing it sends a request with an empty \<^verbatim>\<open>format_id\<close>.
\<close>

theorem download_sends_empty_format_counterexample:
  "snd (click_download
     (fst (submit_form ((=) ''https://youtu.be/abc'') example_state
        (Responded (formats_reply (example_info\<lparr>formats := []\<rparr>)))))
     (Rejected ''Failed to fetch'')) =
   [Fetch \<lparr>endpoint = ''http://localhost:8000/download'', http_method = ''POST'',
           req_headers = [(''Content-Type'', ''application/json'')],
           req_body = [(''url'', ''https://youtu.be/abc''), (''format_id'', [])]\<rparr>]"
  by (simp add: submit_form_def example_state_def App_init_def handleUrlSubmit_success
      formats_reply_def click_download_def handleDownload_rejected download_request_def
      first_format_id_def js_or_def)

text \<open>
  C6, amended. Every download request that is sent carries both properties, \<^verbatim>\<open>url\<close> and
  \<^verbatim>\<open>format_id\<close>, with the values the URL input and the format selection hold at that
  moment, empty or not; it is the only request of the click. No download request is sent
  while no VideoInfo is held or while a request is in flight.
\<close>

theorem download_request_carries_both_fields:
  "(videoInfo st = None \<or> loading st \<longrightarrow> click_download st out = (st, []))
   \<and> (videoInfo st \<noteq> None \<and> \<not> loading st \<longrightarrow>
        (\<exists>rest. snd (click_download st out) =
             Fetch \<lparr>endpoint = ''http://localhost:8000/download'', http_method = ''POST'',
                    req_headers = [(''Content-Type'', ''application/json'')],
                    req_body = [(''url'', url st), (''format_id'', selectedFormat st)]\<rparr> # rest
           \<and> (\<forall>q. Fetch q \<notin> set rest)))"
  using handleDownload_effects [of st out]
  by (auto simp: click_download_withheld click_download_runs download_request_def)

theorem download_request_carries_both_fields_witness:
  "videoInfo App_init = None
   \<and> click_download App_init (Rejected ''Failed to fetch'') = (App_init, [])
   \<and> videoInfo (fst (handleUrlSubmit example_state (Responded (formats_reply example_info))))
       \<noteq> None
   \<and> \<not> loading (fst (handleUrlSubmit example_state (Responded (formats_reply example_info))))
   \<and> snd (click_download
        (fst (handleUrlSubmit example_state (Responded (formats_reply example_info))))
        (Responded (file_reply None [1, 2, 3]))) =
       [Fetch \<lparr>endpoint = ''http://localhost:8000/download'', http_method = ''POST'',
               req_headers = [(''Content-Type'', ''application/json'')],
               req_body = [(''url'', ''https://youtu.be/abc''), (''format_id'', ''18'')]\<rparr>,
        SaveAs ''video.mp4'' [1, 2, 3]]"
  using download_request_carries_both_fields [of App_init "Rejected ''Failed to fetch''"]
    download_request_carries_both_fields
      [of "fst (handleUrlSubmit example_state (Responded (formats_reply example_info)))"
          "Responded (file_reply None [1, 2, 3])"]
  by (simp add: App_init_def click_download_def handleUrlSubmit_success formats_reply_def
      file_reply_def handleDownload_success download_filename_None download_request_def
      example_state_def example_info_def example_format_def first_format_id_def js_or_def)

end
